theory Spec2Isabelle
  imports Complex_Main
begin

section \<open>SampleHandle.cpp: the sample-editing handle of the wave track view\<close>

text \<open>
  The embedding follows \<^verbatim>\<open>src/tracks/playabletrack/wavetrack/ui/SampleHandle.cpp\<close>.

  Conventions of the model.
  \<^item> \<^verbatim>\<open>float\<close> and \<^verbatim>\<open>double\<close> values are modelled as \<^typ>\<open>real\<close>: arithmetic is exact,
    every value is finite, and the narrowing casts to \<^verbatim>\<open>float\<close> are the identity.
    Where the source would produce a non-finite double (a division by a zero stretch
    ratio) the model stops with the fault \<open>NonFinite\<close>.
  \<^item> Pixel coordinates (\<^verbatim>\<open>int\<close>, \<^verbatim>\<open>ZoomInfo::int64\<close>) are modelled as \<^typ>\<open>int\<close>
    without wrap-around.
  \<^item> A pointer that may be null is an \<open>option\<close>; dereferencing \<open>None\<close> is the fault
    \<open>NullPointer\<close>. A failed \<^verbatim>\<open>wxASSERT\<close> is the fault \<open>AssertionFailed\<close>.
  \<^item> The classes and functions the file uses but does not define (\<^verbatim>\<open>ViewInfo\<close>,
    \<^verbatim>\<open>WaveTrack\<close>, \<^verbatim>\<open>WaveClip\<close>, \<^verbatim>\<open>Envelope\<close>, \<^verbatim>\<open>GetWaveYPos\<close>, \<^verbatim>\<open>ValueOfPixel\<close>)
    are parameters: records whose fields are the member functions called here.
  \<^item> Calls that change the outside world (sample writes, history calls, the message
    box) are recorded, in order, as a list of \<open>Effect\<close>s returned by each handler.
\<close>

subsection \<open>Collaborators\<close>

datatype fault = NullPointer | AssertionFailed | NonFinite

record wxRect =
  rect_x :: int
  rect_y :: int
  rect_width :: int
  rect_height :: int

record wxMouseEvent =
  m_x :: int
  m_y :: int
  m_altDown :: bool
  m_controlDown :: bool

record TrackPanelMouseEvent =
  event :: wxMouseEvent
  rect :: wxRect

record Interval =
  position :: int
  averageZoom :: real
  inFisheye :: bool

text \<open>
  \<^verbatim>\<open>PositionToTime(position, origin = 0)\<close> carries its origin argument;
  \<^verbatim>\<open>TimeToPosition\<close> is only ever called with the time alone.
\<close>

record ViewInfo =
  PositionToTime :: "int \<Rightarrow> int \<Rightarrow> real"
  TimeToPosition :: "real \<Rightarrow> int"
  FindIntervals :: "int \<Rightarrow> Interval list"

record WaveClip =
  GetRate :: real
  GetStretchRatio :: real
  GetPlayStartTime :: real
  TimeToSamples :: "real \<Rightarrow> int"
  SamplesToTime :: "int \<Rightarrow> real"

record Envelope =
  GetValue :: "real \<Rightarrow> real"

text \<open>
  The read side of a wave track, channel 0, \<^verbatim>\<open>mayThrow = false\<close>.
  \<open>GetFloatAtTime\<close> is \<open>None\<close> when the source function returns \<^verbatim>\<open>false\<close>.
  \<open>GetFloatsCenteredAroundTime t n\<close> gives the contents of the caller's buffer after the
  call together with the pair \<^verbatim>\<open>(first, second)\<close> it returns; slots outside
  \<^verbatim>\<open>[first, second)\<close> hold whatever the buffer held.
  \<open>GetDisplayBounds\<close> is \<^verbatim>\<open>WaveformScale::Get(track).GetDisplayBounds\<close>; \<open>isLinear\<close> and
  \<open>dBRange\<close> are the track's \<^verbatim>\<open>WaveformSettings\<close>.
\<close>

record WaveTrack =
  GetClipAtTime :: "real \<Rightarrow> WaveClip option"
  SnapToSample :: "real \<Rightarrow> real"
  GetFloatAtTime :: "real \<Rightarrow> real option"
  GetEnvelopeAtTime :: "real \<Rightarrow> Envelope option"
  GetFloatsCenteredAroundTime :: "real \<Rightarrow> nat \<Rightarrow> real list \<times> nat \<times> nat"
  GetDisplayBounds :: "real \<times> real"
  isLinear :: bool
  dBRange :: real

text \<open>The two functions of \<^verbatim>\<open>TrackArt.h\<close> / \<^verbatim>\<open>TrackArtist.h\<close> called here.\<close>

record TrackArt =
  GetWaveYPos :: "real \<Rightarrow> real \<Rightarrow> real \<Rightarrow> int \<Rightarrow> bool \<Rightarrow> bool \<Rightarrow> real \<Rightarrow> bool \<Rightarrow> int"
  ValueOfPixel :: "int \<Rightarrow> int \<Rightarrow> bool \<Rightarrow> bool \<Rightarrow> real \<Rightarrow> real \<Rightarrow> real \<Rightarrow> real"

record AudacityProject =
  IsAudioActive :: bool
  viewInfo :: ViewInfo

datatype UndoPush = NONE | CONSOLIDATE | NOAUTOSAVE

datatype Effect =
    AudacityMessageBox string string
  | SetFloatAtTime real real
  | SetFloatsCenteredAroundTime real "real list" nat
  | SetFloatsWithinTimeRange real real "real \<Rightarrow> real"
  | PushState string string UndoPush
  | RollbackState

fun is_write :: "Effect \<Rightarrow> bool" where
  "is_write (SetFloatAtTime t v) = True"
| "is_write (SetFloatsCenteredAroundTime t vs n) = True"
| "is_write (SetFloatsWithinTimeRange a b f) = True"
| "is_write e = False"

fun is_PushState :: "Effect \<Rightarrow> bool" where
  "is_PushState (PushState a b c) = True"
| "is_PushState e = False"

fun is_history :: "Effect \<Rightarrow> bool" where
  "is_history (PushState a b c) = True"
| "is_history RollbackState = True"
| "is_history e = False"

fun write_ranges :: "Effect list \<Rightarrow> (real \<times> real) list" where
  "write_ranges [] = []"
| "write_ranges (SetFloatsWithinTimeRange a b f # es) = (a, b) # write_ranges es"
| "write_ranges (e # es) = write_ranges es"

text \<open>\<^verbatim>\<open>UIHandle::Result\<close> is a set of flags; \<^verbatim>\<open>RefreshNone\<close> is the empty set.\<close>

datatype RefreshFlag = RefreshCell | Cancelled

type_synonym Result = "RefreshFlag set"

definition RefreshNone :: Result where
  "RefreshNone = {}"

subsection \<open>The handle\<close>

record SampleHandle =
  mClickedTrack :: "WaveTrack option"
  mRect :: wxRect
  mClickedStartPixel :: int
  mLastDragPixel :: int
  mLastDragSampleValue :: real
  mAltKey :: bool

definition SMOOTHING_KERNEL_RADIUS :: int where
  "SMOOTHING_KERNEL_RADIUS = 3"

definition SMOOTHING_BRUSH_RADIUS :: int where
  "SMOOTHING_BRUSH_RADIUS = 5"

definition SMOOTHING_PROPORTION_MAX :: real where
  "SMOOTHING_PROPORTION_MAX = 7 / 10"

definition SMOOTHING_PROPORTION_MIN :: real where
  "SMOOTHING_PROPORTION_MIN = 0"

subsection \<open>adjustTime and SampleResolutionTest\<close>

definition adjustTime :: "WaveTrack option \<Rightarrow> real \<Rightarrow> fault + real" where
  "adjustTime wt time =
     (case wt of
        None \<Rightarrow> Inl NullPointer
      | Some w \<Rightarrow>
          (case GetClipAtTime w time of
             None \<Rightarrow> Inr (SnapToSample w time)
           | Some clip \<Rightarrow>
               (let sampleOffset = TimeToSamples clip (time - GetPlayStartTime clip)
                in Inr (SamplesToTime clip sampleOffset + GetPlayStartTime clip))))"

text \<open>
  The loop \<^verbatim>\<open>do prev = it++; while (it != end && it->position <= xx);\<close>:
  \<open>findRun prev rest xx\<close> is entered with \<open>prev\<close> already taken and \<open>rest\<close> the
  elements from \<^verbatim>\<open>it\<close> on.
\<close>

fun findRun :: "Interval \<Rightarrow> Interval list \<Rightarrow> int \<Rightarrow> Interval" where
  "findRun prev [] xx = prev"
| "findRun prev (it # rest) xx = (if position it \<le> xx then findRun it rest xx else prev)"

definition SampleResolutionTest ::
  "ViewInfo \<Rightarrow> WaveTrack option \<Rightarrow> real \<Rightarrow> int \<Rightarrow> fault + bool" where
  "SampleResolutionTest vi wt time width =
     (let xx = max 0 (TimeToPosition vi time) in
      case wt of
        None \<Rightarrow> Inl NullPointer
      | Some w \<Rightarrow>
          (case GetClipAtTime w time of
             None \<Rightarrow> Inr True
           | Some clip \<Rightarrow>
               if GetStretchRatio clip = 0 then Inl NonFinite
               else
                 (let rate = GetRate clip / GetStretchRatio clip;
                      intervals = FindIntervals vi width
                  in case intervals of
                       [] \<Rightarrow> Inl AssertionFailed
                     | it # rest \<Rightarrow>
                         if position it \<noteq> 0 then Inl AssertionFailed
                         else
                           (let prev = findRun it rest xx;
                                threshold = 3 * rate
                            in Inr (averageZoom prev > threshold)))))"

text \<open>
  The run containing a pixel, in the words of the specification: among the runs, given
  by their first pixel in increasing order, the last one that starts at or before the
  pixel.
\<close>

definition run_containing :: "Interval list \<Rightarrow> int \<Rightarrow> Interval" where
  "run_containing intervals xx = last (filter (\<lambda>i. position i \<le> xx) intervals)"

subsection \<open>The interpolator of Drag\<close>

definition std_clamp :: "real \<Rightarrow> real \<Rightarrow> real \<Rightarrow> real" where
  "std_clamp v lo hi = (if v < lo then lo else if hi < v then hi else v)"

definition interpolator :: "real \<Rightarrow> real \<Rightarrow> real \<Rightarrow> real \<Rightarrow> real \<Rightarrow> real" where
  "interpolator t0 t1 v0 v1 t =
     (if t0 = t1 then v1
      else
        (let gradient = (v1 - v0) / (t1 - t0);
             val = gradient * (t - t0) + v0
         in std_clamp val (min v0 v1) (max v0 v1)))"

subsection \<open>IsSampleEditingPossible and FindSampleEditingLevel\<close>

definition IsSampleEditingPossible ::
  "wxMouseEvent \<Rightarrow> wxRect \<Rightarrow> ViewInfo \<Rightarrow> WaveTrack option \<Rightarrow> int
     \<Rightarrow> fault + (bool \<times> Effect list)" where
  "IsSampleEditingPossible ev rc vi wt width =
     (case adjustTime wt (PositionToTime vi (m_x ev) (rect_x rc)) of
        Inl f \<Rightarrow> Inl f
      | Inr time \<Rightarrow>
          (case SampleResolutionTest vi wt time width of
             Inl f \<Rightarrow> Inl f
           | Inr ok \<Rightarrow>
               if \<not> ok then
                 Inr (False,
                   [AudacityMessageBox
                      ''To use Draw, zoom in further until you can see the individual samples.''
                      ''Draw Tool''])
               else Inr (True, [])))"

definition FindSampleEditingLevel ::
  "TrackArt \<Rightarrow> SampleHandle \<Rightarrow> wxMouseEvent \<Rightarrow> ViewInfo \<Rightarrow> real \<Rightarrow> fault + real" where
  "FindSampleEditingLevel art this ev vi t0 =
     (case mClickedTrack this of
        None \<Rightarrow> Inl NullPointer
      | Some wt \<Rightarrow>
          (let zoomMin = fst (GetDisplayBounds wt);
               zoomMax = snd (GetDisplayBounds wt);
               yy = m_y ev - rect_y (mRect this);
               height = rect_height (mRect this);
               dB = (\<not> isLinear wt);
               newLevel = ValueOfPixel art yy height False dB (dBRange wt) zoomMin zoomMax;
               time = PositionToTime vi (m_x ev) (rect_x (mRect this))
           in case GetEnvelopeAtTime wt time of
                None \<Rightarrow> Inr newLevel
              | Some env \<Rightarrow>
                  (let envValue = GetValue env t0;
                       newLevel1 = (if envValue > 0 then newLevel / envValue else 0)
                   in Inr (max (- 1) (min 1 newLevel1)))))"

subsection \<open>The smoothing pass of Click\<close>

text \<open>
  \<open>sampleRegion\<close> is the buffer of \<open>1 + 2 * (3 + 5) = 17\<close> slots after the read,
  \<open>sampleRegionRange\<close> the pair the read returned. The index
  \<open>ii + jj + 3 + 5\<close> is never negative, so its comparison with the unsigned bounds is
  the comparison of the numbers.
\<close>

definition inRange :: "nat \<times> nat \<Rightarrow> int \<Rightarrow> bool" where
  "inRange sampleRegionRange sampleRegionIndex =
     (int (fst sampleRegionRange) \<le> sampleRegionIndex
        \<and> sampleRegionIndex < int (snd sampleRegionRange))"

text \<open>The inner loop over \<open>ii\<close>, for one \<open>jj\<close>.\<close>

definition sumOfSamples :: "real list \<Rightarrow> nat \<times> nat \<Rightarrow> int \<Rightarrow> real" where
  "sumOfSamples sampleRegion sampleRegionRange jj =
     fold (\<lambda>ii acc.
             (let sampleRegionIndex =
                    ii + jj + SMOOTHING_KERNEL_RADIUS + SMOOTHING_BRUSH_RADIUS
              in if \<not> inRange sampleRegionRange sampleRegionIndex then acc
                 else acc + of_int (SMOOTHING_KERNEL_RADIUS + 1 - \<bar>ii\<bar>)
                              * sampleRegion ! nat sampleRegionIndex))
          [- SMOOTHING_KERNEL_RADIUS .. SMOOTHING_KERNEL_RADIUS] 0"

text \<open>The first loop over \<open>jj\<close>: \<open>newSampleRegion\<close> after it.\<close>

definition smoothLoop :: "real list \<Rightarrow> nat \<times> nat \<Rightarrow> real list" where
  "smoothLoop sampleRegion sampleRegionRange =
     map (\<lambda>jj. sumOfSamples sampleRegion sampleRegionRange jj
                 / of_int ((SMOOTHING_KERNEL_RADIUS + 1) * (SMOOTHING_KERNEL_RADIUS + 1)))
         [- SMOOTHING_BRUSH_RADIUS .. SMOOTHING_BRUSH_RADIUS]"

definition prob :: "int \<Rightarrow> real" where
  "prob jj =
     SMOOTHING_PROPORTION_MAX
       - of_int \<bar>jj\<bar> / of_int SMOOTHING_BRUSH_RADIUS
           * (SMOOTHING_PROPORTION_MAX - SMOOTHING_PROPORTION_MIN)"

text \<open>The second loop over \<open>jj\<close>: \<open>newSampleRegion\<close> after it.\<close>

definition mixLoop :: "real list \<Rightarrow> real list \<Rightarrow> real list" where
  "mixLoop sampleRegion newSampleRegion =
     map (\<lambda>jj. newSampleRegion ! nat (jj + SMOOTHING_BRUSH_RADIUS) * prob jj
                 + sampleRegion
                     ! nat (SMOOTHING_BRUSH_RADIUS + SMOOTHING_KERNEL_RADIUS + jj)
                     * (1 - prob jj))
         [- SMOOTHING_BRUSH_RADIUS .. SMOOTHING_BRUSH_RADIUS]"

definition smoothing :: "real list \<Rightarrow> nat \<times> nat \<Rightarrow> real list" where
  "smoothing sampleRegion sampleRegionRange =
     mixLoop sampleRegion (smoothLoop sampleRegion sampleRegionRange)"

subsection \<open>Click, Drag, Release, Cancel\<close>

text \<open>
  Each handler returns its \<^verbatim>\<open>UIHandle::Result\<close>, the handle after the call and the
  effects of the call in order. \<open>IsSampleEditingPossible\<close> is the first use of the track
  reference in \<open>Click\<close> and \<open>Drag\<close> and comes before every write, so a handler that
  stops with a fault has written nothing. \<open>Drag\<close> evaluates
  \<open>IsSampleEditingPossible\<close> whether or not audio is active, and discards the result of
  \<open>Cancel\<close> in favour of \<^verbatim>\<open>RefreshCell | Cancelled\<close>.
\<close>

definition Click ::
  "TrackArt \<Rightarrow> AudacityProject \<Rightarrow> TrackPanelMouseEvent \<Rightarrow> SampleHandle
     \<Rightarrow> fault + (Result \<times> SampleHandle \<times> Effect list)" where
  "Click art pProject evt this =
     (let unsafe = IsAudioActive pProject in
      if unsafe then Inr ({Cancelled}, this, [])
      else
        (let ev = event evt;
             rc = rect evt;
             vi = viewInfo pProject;
             t0 = PositionToTime vi (m_x ev) (rect_x rc);
             pTrack = mClickedTrack this
         in case IsSampleEditingPossible ev rc vi pTrack (rect_width rc) of
              Inl f \<Rightarrow> Inl f
            | Inr (possible, msgs) \<Rightarrow>
                if \<not> possible then Inr ({Cancelled}, this, msgs)
                else
                  (let this1 = this\<lparr>mRect := rc, mClickedStartPixel := TimeToPosition vi t0\<rparr>
                   in if m_altDown ev then
                        (case mClickedTrack this1 of
                           None \<Rightarrow> Inl NullPointer
                         | Some wt \<Rightarrow>
                             (let rd = GetFloatsCenteredAroundTime wt t0
                                         (nat (SMOOTHING_KERNEL_RADIUS + SMOOTHING_BRUSH_RADIUS));
                                  sampleRegion = fst rd;
                                  sampleRegionRange = snd rd;
                                  newSampleRegion = smoothing sampleRegion sampleRegionRange
                              in Inr ({RefreshCell},
                                   this1\<lparr>mAltKey := True,
                                         mLastDragPixel := mClickedStartPixel this1\<rparr>,
                                   msgs @ [SetFloatsCenteredAroundTime t0 newSampleRegion
                                             (nat SMOOTHING_BRUSH_RADIUS)])))
                      else
                        (let this2 = this1\<lparr>mAltKey := False\<rparr>
                         in case FindSampleEditingLevel art this2 ev vi t0 of
                              Inl f \<Rightarrow> Inl f
                            | Inr newLevel \<Rightarrow>
                                Inr ({RefreshCell},
                                  this2\<lparr>mLastDragSampleValue := newLevel,
                                        mLastDragPixel := mClickedStartPixel this2\<rparr>,
                                  msgs @ [SetFloatAtTime t0 newLevel])))))"

definition Cancel :: "AudacityProject \<Rightarrow> SampleHandle \<Rightarrow> Result \<times> SampleHandle \<times> Effect list" where
  "Cancel pProject this = ({RefreshCell}, this\<lparr>mClickedTrack := None\<rparr>, [RollbackState])"

definition Drag ::
  "TrackArt \<Rightarrow> AudacityProject \<Rightarrow> TrackPanelMouseEvent \<Rightarrow> SampleHandle
     \<Rightarrow> fault + (Result \<times> SampleHandle \<times> Effect list)" where
  "Drag art pProject evt this =
     (let ev = event evt;
          vi = viewInfo pProject;
          unsafe = IsAudioActive pProject
      in case IsSampleEditingPossible ev (mRect this) vi (mClickedTrack this)
                (rect_width (mRect this)) of
           Inl f \<Rightarrow> Inl f
         | Inr (samplesVisible, msgs) \<Rightarrow>
             if unsafe \<or> \<not> samplesVisible then
               (case Cancel pProject this of
                  (r, this1, fx) \<Rightarrow> Inr ({RefreshCell, Cancelled}, this1, msgs @ fx))
             else if mAltKey this then Inr (RefreshNone, this, msgs)
             else
               (let t0 = PositionToTime vi (mLastDragPixel this) 0;
                    t1 = PositionToTime vi (m_x ev) (rect_x (mRect this));
                    x1 = (if m_controlDown ev then mClickedStartPixel this
                          else TimeToPosition vi t1)
                in case FindSampleEditingLevel art this ev vi t0 of
                     Inl f \<Rightarrow> Inl f
                   | Inr newLevel \<Rightarrow>
                       (let start = min t0 t1;
                            end1 = max t0 t1
                        in Inr ({RefreshCell},
                             this\<lparr>mLastDragPixel := x1, mLastDragSampleValue := newLevel\<rparr>,
                             msgs @ [SetFloatsWithinTimeRange start end1
                                       (interpolator t0 t1 (mLastDragSampleValue this)
                                          newLevel)]))))"

definition Release :: "AudacityProject \<Rightarrow> SampleHandle \<Rightarrow> Result \<times> SampleHandle \<times> Effect list" where
  "Release pProject this =
     (let unsafe = IsAudioActive pProject in
      if unsafe then Cancel pProject this
      else (RefreshNone, this\<lparr>mClickedTrack := None\<rparr>,
            [PushState ''Moved Samples'' ''Sample Edit'' CONSOLIDATE]))"

subsection \<open>HitTest\<close>

text \<open>
  The \<^verbatim>\<open>wxMouseState\<close> argument is read through its fields \<^verbatim>\<open>m_x\<close> and \<^verbatim>\<open>m_y\<close>
  only and is modelled by the record of \<^verbatim>\<open>wxMouseEvent\<close>, which derives from it. The
  result is the empty pointer or the handle \<open>HitAnywhere\<close> makes for the track; the list
  of effects is returned with it.
\<close>

datatype UIHandlePtr = NullHandle | NewSampleHandle "WaveTrack option"

definition HitAnywhere :: "WaveTrack option \<Rightarrow> UIHandlePtr" where
  "HitAnywhere pTrack = NewSampleHandle pTrack"

definition HitTest ::
  "TrackArt \<Rightarrow> wxMouseEvent \<Rightarrow> wxRect \<Rightarrow> AudacityProject \<Rightarrow> WaveTrack option
     \<Rightarrow> fault + (UIHandlePtr \<times> Effect list)" where
  "HitTest art state rc pProject pTrack =
     (let vi = viewInfo pProject;
          wavetrack = pTrack;
          time = PositionToTime vi (m_x state) (rect_x rc)
      in case adjustTime wavetrack time of
           Inl f \<Rightarrow> Inl f
         | Inr tt \<Rightarrow>
             (case SampleResolutionTest vi wavetrack tt (rect_width rc) of
                Inl f \<Rightarrow> Inl f
              | Inr ok \<Rightarrow>
                  if \<not> ok then Inr (NullHandle, [])
                  else
                    (case wavetrack of
                       None \<Rightarrow> Inl NullPointer
                     | Some wt \<Rightarrow>
                         (case GetFloatAtTime wt tt of
                            None \<Rightarrow> Inr (NullHandle, [])
                          | Some oneSample \<Rightarrow>
                              (let zoomMin = fst (GetDisplayBounds wt);
                                   zoomMax = snd (GetDisplayBounds wt);
                                   envValue = (case GetEnvelopeAtTime wt time of
                                                 None \<Rightarrow> 1
                                               | Some env \<Rightarrow> GetValue env tt);
                                   dB = (\<not> isLinear wt);
                                   yValue = GetWaveYPos art (oneSample * envValue)
                                              zoomMin zoomMax (rect_height rc) dB True
                                              (dBRange wt) False
                                            + rect_y rc;
                                   yMouse = m_y state;
                                   yTolerance = 10
                               in if \<bar>yValue - yMouse\<bar> \<ge> yTolerance
                                  then Inr (NullHandle, [])
                                  else Inr (HitAnywhere pTrack, []))))))"

subsection \<open>Sequences of events\<close>

datatype GestureEvent =
    EvClick TrackPanelMouseEvent
  | EvDrag TrackPanelMouseEvent
  | EvRelease
  | EvCancel

text \<open>
  One event, delivered to the handle with the project as it is at that moment.
\<close>

fun deliver ::
  "TrackArt \<Rightarrow> AudacityProject \<Rightarrow> GestureEvent \<Rightarrow> SampleHandle
     \<Rightarrow> fault + (Result \<times> SampleHandle \<times> Effect list)" where
  "deliver art pProject (EvClick evt) this = Click art pProject evt this"
| "deliver art pProject (EvDrag evt) this = Drag art pProject evt this"
| "deliver art pProject EvRelease this = Inr (Release pProject this)"
| "deliver art pProject EvCancel this = Inr (Cancel pProject this)"

text \<open>
  A list of events, each with its own snapshot of the project: the results in order, the
  final handle and all effects in order.
\<close>

fun deliverAll ::
  "TrackArt \<Rightarrow> (AudacityProject \<times> GestureEvent) list \<Rightarrow> SampleHandle
     \<Rightarrow> fault + (Result list \<times> SampleHandle \<times> Effect list)" where
  "deliverAll art [] this = Inr ([], this, [])"
| "deliverAll art (pe # pes) this =
     (case deliver art (fst pe) (snd pe) this of
        Inl f \<Rightarrow> Inl f
      | Inr (r, this1, fx) \<Rightarrow>
          (case deliverAll art pes this1 of
             Inl f \<Rightarrow> Inl f
           | Inr (rs, this2, fxs) \<Rightarrow> Inr (r # rs, this2, fx @ fxs)))"

definition effects_of :: "fault + (Result \<times> SampleHandle \<times> Effect list) \<Rightarrow> Effect list" where
  "effects_of res = (case res of Inl f \<Rightarrow> [] | Inr (r, this, fx) \<Rightarrow> fx)"

subsection \<open>Concrete collaborators for evaluation\<close>

text \<open>
  A view at 100 pixels per second, a clip at 10 samples per second (10 pixels per
  sample), a track holding that clip under a constant envelope of 2, and a track without
  clip or envelope whose display bounds are \<open>[-2, 2]\<close>. The drawing functions map a
  rectangle's rows linearly onto the display bounds.
\<close>

definition ex_view :: "real \<Rightarrow> ViewInfo" where
  "ex_view zoom =
     \<lparr>PositionToTime = (\<lambda>p orig. of_int (p - orig) / 100),
      TimeToPosition = (\<lambda>t. \<lfloor>t * 100\<rfloor>),
      FindIntervals = (\<lambda>w. [\<lparr>position = 0, averageZoom = zoom, inFisheye = False\<rparr>,
                             \<lparr>position = w, averageZoom = 0, inFisheye = False\<rparr>])\<rparr>"

definition ex_clip :: WaveClip where
  "ex_clip =
     \<lparr>GetRate = 10, GetStretchRatio = 1, GetPlayStartTime = 0,
      TimeToSamples = (\<lambda>t. \<lfloor>t * 10 + 1 / 2\<rfloor>),
      SamplesToTime = (\<lambda>n. of_int n / 10)\<rparr>"

definition ex_track :: WaveTrack where
  "ex_track =
     \<lparr>GetClipAtTime = (\<lambda>t. Some ex_clip),
      SnapToSample = (\<lambda>t. of_int \<lfloor>t * 10 + 1 / 2\<rfloor> / 10),
      GetFloatAtTime = (\<lambda>t. Some (1 / 4)),
      GetEnvelopeAtTime = (\<lambda>t. Some \<lparr>GetValue = (\<lambda>t. 2)\<rparr>),
      GetFloatsCenteredAroundTime = (\<lambda>t n. (replicate 17 (1 / 2), 0, 17)),
      GetDisplayBounds = (- 1, 1),
      isLinear = True,
      dBRange = 60\<rparr>"

text \<open>
  The same track read at the end of its clip: the read returns the range \<open>[0, 13)\<close> and
  the slots 13 to 16 of the buffer keep the value 100 they held before the read.
\<close>

definition ex_edge_track :: WaveTrack where
  "ex_edge_track =
     ex_track\<lparr>GetFloatsCenteredAroundTime :=
                (\<lambda>t n. (replicate 13 (1 / 2) @ replicate 4 100, 0, 13))\<rparr>"

definition ex_bare_track :: WaveTrack where
  "ex_bare_track =
     \<lparr>GetClipAtTime = (\<lambda>t. None),
      SnapToSample = (\<lambda>t. of_int \<lfloor>t * 10 + 1 / 2\<rfloor> / 10),
      GetFloatAtTime = (\<lambda>t. None),
      GetEnvelopeAtTime = (\<lambda>t. None),
      GetFloatsCenteredAroundTime = (\<lambda>t n. (replicate 17 0, 8, 8)),
      GetDisplayBounds = (- 2, 2),
      isLinear = True,
      dBRange = 60\<rparr>"

definition ex_art :: TrackArt where
  "ex_art =
     \<lparr>GetWaveYPos = (\<lambda>v lo hi height dB outer dBr clip.
                       \<lfloor>of_int (height - 1) * (hi - v) / (hi - lo)\<rfloor>),
      ValueOfPixel = (\<lambda>yy height offset dB dBr zoomMin zoomMax.
                       zoomMax - of_int yy / of_int (height - 1) * (zoomMax - zoomMin))\<rparr>"

definition ex_rect :: wxRect where
  "ex_rect = \<lparr>rect_x = 0, rect_y = 0, rect_width = 1000, rect_height = 101\<rparr>"

definition ex_project :: "bool \<Rightarrow> AudacityProject" where
  "ex_project active = \<lparr>IsAudioActive = active, viewInfo = ex_view 100\<rparr>"

definition ex_mouse :: "int \<Rightarrow> int \<Rightarrow> bool \<Rightarrow> bool \<Rightarrow> TrackPanelMouseEvent" where
  "ex_mouse px py alt ctrl =
     \<lparr>event = \<lparr>m_x = px, m_y = py, m_altDown = alt, m_controlDown = ctrl\<rparr>,
      rect = ex_rect\<rparr>"

definition ex_handle :: "WaveTrack option \<Rightarrow> SampleHandle" where
  "ex_handle pTrack =
     \<lparr>mClickedTrack = pTrack, mRect = ex_rect, mClickedStartPixel = 100,
      mLastDragPixel = 100, mLastDragSampleValue = 0, mAltKey = False\<rparr>"

section \<open>Properties\<close>

subsection \<open>Auxiliary facts\<close>

lemma findRun_run_containing:
  "position it \<le> xx \<Longrightarrow> sorted (map position (it # rest))
     \<Longrightarrow> findRun it rest xx = run_containing (it # rest) xx"
proof (induction rest arbitrary: it)
  case Nil
  then show ?case by (simp add: run_containing_def)
next
  case (Cons a r)
  show ?case
  proof (cases "position a \<le> xx")
    case True
    have "sorted (map position (a # r))" using Cons.prems(2) by simp
    then have "findRun a r xx = run_containing (a # r) xx" using Cons.IH True by blast
    then show ?thesis using True Cons.prems(1) by (simp add: run_containing_def)
  next
    case False
    have "\<forall>i \<in> set r. position a \<le> position i" using Cons.prems(2) by auto
    then have "filter (\<lambda>i. position i \<le> xx) r = []" using False by (auto simp: filter_empty_conv)
    then show ?thesis using False Cons.prems(1) by (simp add: run_containing_def)
  qed
qed

lemma std_clamp_max_min: "lo \<le> hi \<Longrightarrow> std_clamp v lo hi = max lo (min hi v)"
  by (auto simp: std_clamp_def)

lemma std_clamp_bounds: "lo \<le> hi \<Longrightarrow> lo \<le> std_clamp v lo hi \<and> std_clamp v lo hi \<le> hi"
  by (auto simp: std_clamp_def)

lemma upto_m5_5: "[- 5 .. 5::int] = [-5, -4, -3, -2, -1, 0, 1, 2, 3, 4, 5]"
  by (simp add: upto_rec1)

lemma upto_m3_3: "[- 3 .. 3::int] = [-3, -2, -1, 0, 1, 2, 3]"
  by (simp add: upto_rec1)


lemma prob_closed: "prob jj = 7 / 10 - (of_int \<bar>jj\<bar> / 5) * (7 / 10)"
  by (simp add: prob_def SMOOTHING_BRUSH_RADIUS_def
        SMOOTHING_PROPORTION_MAX_def SMOOTHING_PROPORTION_MIN_def)

lemma smoothing_edges:
  "smoothing sr rng ! 0 = sr ! 3 \<and> smoothing sr rng ! 10 = sr ! 13"
  by (simp add: smoothing_def mixLoop_def SMOOTHING_KERNEL_RADIUS_def SMOOTHING_BRUSH_RADIUS_def
        upto_m5_5 prob_closed)

lemma sumOfSamples_unfold:
  "sumOfSamples sr rng jj =
     fold (\<lambda>ii acc. if \<not> inRange rng (ii + jj + 8) then acc
                     else acc + of_int (4 - \<bar>ii\<bar>) * sr ! nat (ii + jj + 8))
          [-3, -2, -1, 0, 1, 2, 3] 0"
  unfolding sumOfSamples_def SMOOTHING_KERNEL_RADIUS_def SMOOTHING_BRUSH_RADIUS_def
    upto_m3_3 Let_def
  by (simp add: algebra_simps)






lemma fold_skip_bound:
  "(\<And>ii. ii \<in> set xs \<Longrightarrow> 0 \<le> w ii) \<Longrightarrow>
   (\<And>ii. ii \<in> set xs \<Longrightarrow> P ii \<Longrightarrow> \<bar>g ii\<bar> \<le> w ii) \<Longrightarrow>
   \<bar>fold (\<lambda>ii acc. if \<not> P ii then acc else acc + g ii) xs (a::real)\<bar>
     \<le> \<bar>a\<bar> + sum_list (map w xs)"
proof (induction xs arbitrary: a)
  case Nil
  then show ?case by simp
next
  case (Cons x xs)
  have ih: "\<bar>fold (\<lambda>ii acc. if \<not> P ii then acc else acc + g ii) xs b\<bar>
     \<le> \<bar>b\<bar> + sum_list (map w xs)" for b
    using Cons.IH [of b] Cons.prems by simp
  show ?case
  proof (cases "P x")
    case True
    have "\<bar>g x\<bar> \<le> w x" using Cons.prems(2) [of x] True by simp
    then have "\<bar>a + g x\<bar> \<le> \<bar>a\<bar> + w x" by linarith
    then show ?thesis using ih [of "a + g x"] True by simp
  next
    case False
    have "0 \<le> w x" using Cons.prems(1) [of x] by simp
    then show ?thesis using ih [of a] False by simp
  qed
qed

lemma sumOfSamples_bound:
  assumes v: "\<And>i. fst rng \<le> i \<Longrightarrow> i < snd rng \<Longrightarrow> \<bar>sr ! i\<bar> \<le> 1"
  shows "\<bar>sumOfSamples sr rng jj\<bar> \<le> 16"
proof -
  have g: "\<bar>of_int (4 - \<bar>ii\<bar>) * sr ! nat (ii + jj + 8)\<bar> \<le> of_int (4 - \<bar>ii\<bar>)"
    if i: "ii \<in> set [-3, -2, -1, 0, 1, 2, 3]" and r: "inRange rng (ii + jj + 8)" for ii :: int
  proof -
    have w: "(0::real) \<le> of_int (4 - \<bar>ii\<bar>)" using i by auto
    have "fst rng \<le> nat (ii + jj + 8) \<and> nat (ii + jj + 8) < snd rng"
      using r by (auto simp: inRange_def)
    then have "\<bar>sr ! nat (ii + jj + 8)\<bar> \<le> 1" using v by blast
    then have "of_int (4 - \<bar>ii\<bar>) * \<bar>sr ! nat (ii + jj + 8)\<bar> \<le> of_int (4 - \<bar>ii\<bar>) * 1"
      using w by (rule mult_left_mono)
    then show ?thesis using w by (simp add: abs_mult)
  qed
  have w: "(0::real) \<le> of_int (4 - \<bar>ii\<bar>)" if "ii \<in> set [-3, -2, -1, 0, 1, 2, 3]" for ii :: int
    using that by auto
  have "\<bar>fold (\<lambda>ii acc. if \<not> inRange rng (ii + jj + 8) then acc
                     else acc + of_int (4 - \<bar>ii\<bar>) * sr ! nat (ii + jj + 8))
          [-3, -2, -1, 0, 1, 2, 3] 0\<bar>
        \<le> \<bar>0\<bar> + sum_list (map (\<lambda>ii. of_int (4 - \<bar>ii\<bar>)) [-3, -2, -1, 0, 1, 2, 3::int])"
  proof (rule fold_skip_bound [where P = "\<lambda>ii. inRange rng (ii + jj + 8)"
          and g = "\<lambda>ii. of_int (4 - \<bar>ii\<bar>) * sr ! nat (ii + jj + 8)"
          and w = "\<lambda>ii. of_int (4 - \<bar>ii\<bar>)"])
    fix ii :: int
    assume "ii \<in> set [-3, -2, -1, 0, 1, 2, 3]"
    then show "(0::real) \<le> of_int (4 - \<bar>ii\<bar>)" by (rule w)
  next
    fix ii :: int
    assume "ii \<in> set [-3, -2, -1, 0, 1, 2, 3]" and "inRange rng (ii + jj + 8)"
    then show "\<bar>of_int (4 - \<bar>ii\<bar>) * sr ! nat (ii + jj + 8)\<bar> \<le> of_int (4 - \<bar>ii\<bar>)"
      by (rule g)
  qed
  moreover have "\<bar>0::real\<bar> + sum_list (map (\<lambda>ii. of_int (4 - \<bar>ii\<bar>)) [-3, -2, -1, 0, 1, 2, 3::int])
      = 16"
    by simp
  ultimately show ?thesis unfolding sumOfSamples_unfold by (simp only:)
qed

lemma length_smoothing: "length (smoothing sr rng) = 11"
  by (simp add: smoothing_def mixLoop_def SMOOTHING_BRUSH_RADIUS_def)

lemma upto_m5_5_nth:
  "- 5 \<le> jj \<Longrightarrow> jj \<le> 5 \<Longrightarrow>
     nat (jj + 5) < length [- 5 .. 5::int] \<and> [- 5 .. 5::int] ! nat (jj + 5) = jj"
  using nth_upto [of "- 5" "nat (jj + 5)" 5] by simp

lemma smoothLoop_nth:
  assumes "- 5 \<le> jj" "jj \<le> 5"
  shows "smoothLoop sr rng ! nat (jj + 5) = sumOfSamples sr rng jj / 16"
proof -
  have l: "nat (jj + 5) < length [- 5 .. 5::int]" and n: "[- 5 .. 5::int] ! nat (jj + 5) = jj"
    using upto_m5_5_nth [OF assms] by simp_all
  show ?thesis
    unfolding smoothLoop_def SMOOTHING_BRUSH_RADIUS_def SMOOTHING_KERNEL_RADIUS_def
      nth_map [OF l] n
    by simp
qed

lemma mixLoop_nth:
  assumes "- 5 \<le> jj" "jj \<le> 5"
  shows "mixLoop sr ns ! nat (jj + 5) =
           ns ! nat (jj + 5) * prob jj + sr ! nat (5 + 3 + jj) * (1 - prob jj)"
proof -
  have l: "nat (jj + 5) < length [- 5 .. 5::int]" and n: "[- 5 .. 5::int] ! nat (jj + 5) = jj"
    using upto_m5_5_nth [OF assms] by simp_all
  show ?thesis
    unfolding mixLoop_def SMOOTHING_BRUSH_RADIUS_def SMOOTHING_KERNEL_RADIUS_def
      nth_map [OF l] n
    by simp
qed

lemma smoothing_nth:
  "j < 11 \<Longrightarrow>
     smoothing sr rng ! j =
       sumOfSamples sr rng (int j - 5) / 16 * prob (int j - 5)
       + sr ! (j + 3) * (1 - prob (int j - 5))"
proof -
  assume j: "j < 11"
  have b: "- 5 \<le> int j - 5" "int j - 5 \<le> 5" using j by simp_all
  have n: "nat (int j - 5 + 5) = j" "nat (5 + 3 + (int j - 5)) = j + 3" by simp_all
  show ?thesis
    using mixLoop_nth [OF b, of sr "smoothLoop sr rng"] smoothLoop_nth [OF b, of sr rng]
    unfolding n smoothing_def by simp
qed

lemma prob_bounds: "- 5 \<le> jj \<Longrightarrow> jj \<le> 5 \<Longrightarrow> 0 \<le> prob jj \<and> prob jj \<le> 1"
proof -
  assume "- 5 \<le> jj" "jj \<le> 5"
  then have "(0::real) \<le> of_int \<bar>jj\<bar> \<and> (of_int \<bar>jj\<bar> :: real) \<le> 5"
    by (simp add: abs_le_iff)
  then show ?thesis by (simp add: prob_closed)
qed

lemma blend_bound:
  fixes c o1 p :: real
  assumes "\<bar>c\<bar> \<le> 1" "\<bar>o1\<bar> \<le> 1" "0 \<le> p" "p \<le> 1"
  shows "\<bar>c * p + o1 * (1 - p)\<bar> \<le> 1"
proof -
  have "\<bar>c\<bar> * p \<le> 1 * p"
    using assms(1) assms(3) by (rule mult_right_mono)
  then have a: "\<bar>c * p\<bar> \<le> p"
    using assms(3) by (simp add: abs_mult)
  have q: "0 \<le> 1 - p" using assms(4) by simp
  have "\<bar>o1\<bar> * (1 - p) \<le> 1 * (1 - p)"
    using assms(2) q by (rule mult_right_mono)
  then have b: "\<bar>o1 * (1 - p)\<bar> \<le> 1 - p"
    using q by (simp add: abs_mult)
  have "\<bar>c * p + o1 * (1 - p)\<bar> \<le> \<bar>c * p\<bar> + \<bar>o1 * (1 - p)\<bar>" by (rule abs_triangle_ineq)
  then show ?thesis using a b by linarith
qed

lemma IsSampleEditingPossible_msgs:
  "IsSampleEditingPossible ev rc vi wt width = Inr (ok, msgs) \<Longrightarrow>
     filter is_write msgs = [] \<and> (ok \<longrightarrow> msgs = [])
     \<and> filter is_history msgs = []"
  by (auto simp: IsSampleEditingPossible_def split: sum.splits if_splits)

lemma IsSampleEditingPossible_None:
  "IsSampleEditingPossible ev rc vi None width = Inl NullPointer"
  by (simp add: IsSampleEditingPossible_def adjustTime_def)

lemma IsSampleEditingPossible_Inr_track:
  "IsSampleEditingPossible ev rc vi wt width = Inr q \<Longrightarrow> \<exists>w. wt = Some w"
  by (cases wt) (simp_all add: IsSampleEditingPossible_None)

lemma FindSampleEditingLevel_Some:
  "mClickedTrack this = Some w \<Longrightarrow> \<exists>level. FindSampleEditingLevel art this ev vi t0 = Inr level"
  by (simp add: FindSampleEditingLevel_def Let_def split: option.splits)

lemma Click_unsafe:
  "IsAudioActive pProject \<Longrightarrow> Click art pProject evt this = Inr ({Cancelled}, this, [])"
  by (simp add: Click_def)

lemma Release_unsafe:
  "IsAudioActive pProject \<Longrightarrow>
     Release pProject this = ({RefreshCell}, this\<lparr>mClickedTrack := None\<rparr>, [RollbackState])"
  by (simp add: Release_def Cancel_def)

lemma Drag_unsafe:
  "IsAudioActive pProject \<Longrightarrow>
   Drag art pProject evt this =
     (case IsSampleEditingPossible (event evt) (mRect this) (viewInfo pProject)
             (mClickedTrack this) (rect_width (mRect this)) of
        Inl f \<Rightarrow> Inl f
      | Inr (ok, msgs) \<Rightarrow>
          Inr ({RefreshCell, Cancelled}, this\<lparr>mClickedTrack := None\<rparr>, msgs @ [RollbackState]))"
  by (auto simp: Drag_def Cancel_def Let_def split: sum.splits)

lemma Drag_unsafe_Inr:
  assumes a: "IsAudioActive pProject"
    and d: "Drag art pProject evt this = Inr (r, this1, fx)"
  shows "r = {RefreshCell, Cancelled} \<and> this1 = this\<lparr>mClickedTrack := None\<rparr>
        \<and> RollbackState \<in> set fx \<and> filter is_write fx = []"
proof (cases "IsSampleEditingPossible (event evt) (mRect this) (viewInfo pProject)
             (mClickedTrack this) (rect_width (mRect this))")
  case (Inl f)
  then show ?thesis using d Drag_unsafe [OF a, of art evt this] by simp
next
  case (Inr p)
  obtain ok msgs where p: "p = (ok, msgs)" by (cases p)
  have "filter is_write msgs = []"
    using IsSampleEditingPossible_msgs Inr p by blast
  then show ?thesis using d Drag_unsafe [OF a, of art evt this] Inr p by auto
qed

lemma Drag_unsafe_Inr_given:
  assumes a: "IsAudioActive pProject"
    and p: "IsSampleEditingPossible (event evt) (mRect this) (viewInfo pProject)
          (mClickedTrack this) (rect_width (mRect this)) = Inr (ok, msgs)"
  shows "Drag art pProject evt this =
          Inr ({RefreshCell, Cancelled}, this\<lparr>mClickedTrack := None\<rparr>, msgs @ [RollbackState])
        \<and> filter is_write msgs = []"
proof -
  have "filter is_write msgs = []"
    using IsSampleEditingPossible_msgs [OF p] by simp
  then show ?thesis using Drag_unsafe [OF a, of art evt this] p by simp
qed

lemma deliver_unsafe_no_write:
  assumes a: "IsAudioActive pProject"
  shows "filter is_write (effects_of (deliver art pProject e this)) = []"
proof (cases e)
  case (EvClick x)
  then show ?thesis using Click_unsafe [OF a] by (simp add: effects_of_def)
next
  case (EvDrag x)
  show ?thesis
  proof (cases "Drag art pProject x this")
    case (Inl f)
    then show ?thesis using EvDrag by (simp add: effects_of_def)
  next
    case (Inr q)
    obtain r this1 fx where q: "q = (r, this1, fx)" by (cases q)
    then show ?thesis using EvDrag Inr Drag_unsafe_Inr [OF a, of art x this r this1 fx]
      by (simp add: effects_of_def)
  qed
next
  case EvRelease
  then show ?thesis using Release_unsafe [OF a] by (simp add: effects_of_def)
next
  case EvCancel
  then show ?thesis by (simp add: effects_of_def Cancel_def)
qed

lemma Click_no_history:
  assumes c: "Click art pProject evt this = Inr (r, this1, fx)" and n: "Cancelled \<notin> r"
  shows "filter is_history fx = []"
proof (cases "IsAudioActive pProject")
  case True
  then show ?thesis using c n by (simp add: Click_def)
next
  case False
  show ?thesis
  proof (cases "IsSampleEditingPossible (event evt) (rect evt) (viewInfo pProject)
                  (mClickedTrack this) (rect_width (rect evt))")
    case (Inl f)
    then show ?thesis using c False by (simp add: Click_def Let_def)
  next
    case (Inr q)
    obtain ok msgs where q: "q = (ok, msgs)" by (cases q)
    have m: "filter is_history msgs = []"
      using IsSampleEditingPossible_msgs Inr q by blast
    show ?thesis
      using c n False Inr q m
      by (auto simp: Click_def Let_def split: if_splits option.splits sum.splits)
  qed
qed

lemma Drag_no_history:
  assumes d: "Drag art pProject evt this = Inr (r, this1, fx)" and n: "Cancelled \<notin> r"
  shows "filter is_history fx = [] \<and> mClickedTrack this1 = mClickedTrack this"
proof (cases "IsSampleEditingPossible (event evt) (mRect this) (viewInfo pProject)
                  (mClickedTrack this) (rect_width (mRect this))")
  case (Inl f)
  then show ?thesis using d by (simp add: Drag_def Let_def)
next
  case (Inr q)
  obtain ok msgs where q: "q = (ok, msgs)" by (cases q)
  have m: "filter is_history msgs = []"
    using IsSampleEditingPossible_msgs Inr q by blast
  show ?thesis
    using d n Inr q m
    by (auto simp: Drag_def Cancel_def RefreshNone_def Let_def split: if_splits sum.splits)
qed

lemma deliverAll_Cons_Inr:
  "deliverAll art (pe # pes) this = Inr (rs, this2, fx) \<Longrightarrow>
     \<exists>r this1 fx1 rs1 fx2.
        deliver art (fst pe) (snd pe) this = Inr (r, this1, fx1)
        \<and> deliverAll art pes this1 = Inr (rs1, this2, fx2)
        \<and> rs = r # rs1 \<and> fx = fx1 @ fx2"
  by (auto split: sum.splits)

lemma deliverAll_length:
  "deliverAll art pes this = Inr (rs, this2, fx) \<Longrightarrow> length rs = length pes"
  by (induction pes arbitrary: this rs fx) (auto split: sum.splits)

lemma drags_no_history:
  "deliverAll art (map (\<lambda>d. (fst d, EvDrag (snd d))) drags @ [(pr, EvRelease)]) this
      = Inr (rs, this2, fx)
   \<Longrightarrow> \<forall>r \<in> set rs. Cancelled \<notin> r
   \<Longrightarrow> filter is_history fx = filter is_history (snd (snd (Release pr this)))
       \<and> mClickedTrack this2 = None
       \<and> last rs = fst (Release pr this)"
proof (induction drags arbitrary: this rs fx)
  case Nil
  then show ?case
    by (auto simp: Release_def Cancel_def Let_def split: if_splits)
next
  case (Cons d ds)
  from Cons.prems(1) obtain r this1 fx1 rs1 fx2 where
      s1: "Drag art (fst d) (snd d) this = Inr (r, this1, fx1)"
    and s2: "deliverAll art (map (\<lambda>d. (fst d, EvDrag (snd d))) ds @ [(pr, EvRelease)]) this1
               = Inr (rs1, this2, fx2)"
    and rs: "rs = r # rs1" and fx: "fx = fx1 @ fx2"
    using deliverAll_Cons_Inr
      [of art "(fst d, EvDrag (snd d))"
          "map (\<lambda>d. (fst d, EvDrag (snd d))) ds @ [(pr, EvRelease)]" this rs this2 fx]
    by auto
  have nr: "Cancelled \<notin> r" and nrs: "\<forall>r \<in> set rs1. Cancelled \<notin> r"
    using Cons.prems(2) rs by auto
  have h1: "filter is_history fx1 = []" and t1: "mClickedTrack this1 = mClickedTrack this"
    using Drag_no_history [OF s1 nr] by auto
  have ih: "filter is_history fx2 = filter is_history (snd (snd (Release pr this1)))
       \<and> mClickedTrack this2 = None \<and> last rs1 = fst (Release pr this1)"
    using Cons.IH [OF s2 nrs] .
  have ne: "rs1 \<noteq> []"
    using deliverAll_length [OF s2] by auto
  have rel: "snd (snd (Release pr this1)) = snd (snd (Release pr this))
       \<and> fst (Release pr this1) = fst (Release pr this)"
    by (simp add: Release_def Cancel_def Let_def)
  show ?case using ih h1 rs fx ne rel by simp
qed

lemma Drag_step_drawing:
  assumes a: "\<not> IsAudioActive pProject" and k: "\<not> mAltKey this"
    and p: "IsSampleEditingPossible (event evt) (mRect this) (viewInfo pProject)
              (mClickedTrack this) (rect_width (mRect this)) = Inr (True, msgs)"
    and l: "FindSampleEditingLevel art this (event evt) (viewInfo pProject)
              (PositionToTime (viewInfo pProject) (mLastDragPixel this) 0) = Inr newLevel"
  shows "Drag art pProject evt this =
     Inr ({RefreshCell},
          this\<lparr>mLastDragPixel :=
                  (if m_controlDown (event evt) then mClickedStartPixel this
                   else TimeToPosition (viewInfo pProject)
                          (PositionToTime (viewInfo pProject) (m_x (event evt))
                             (rect_x (mRect this)))),
                mLastDragSampleValue := newLevel\<rparr>,
          [SetFloatsWithinTimeRange
             (min (PositionToTime (viewInfo pProject) (mLastDragPixel this) 0)
                  (PositionToTime (viewInfo pProject) (m_x (event evt)) (rect_x (mRect this))))
             (max (PositionToTime (viewInfo pProject) (mLastDragPixel this) 0)
                  (PositionToTime (viewInfo pProject) (m_x (event evt)) (rect_x (mRect this))))
             (interpolator (PositionToTime (viewInfo pProject) (mLastDragPixel this) 0)
                (PositionToTime (viewInfo pProject) (m_x (event evt)) (rect_x (mRect this)))
                (mLastDragSampleValue this) newLevel)])"
proof -
  have m: "msgs = []" using IsSampleEditingPossible_msgs [OF p] by simp
  show ?thesis using a k p l m by (simp add: Drag_def Let_def)
qed

lemma Drag_no_track: "mClickedTrack this = None \<Longrightarrow> Drag art pProject evt this = Inl NullPointer"
  by (simp add: Drag_def Let_def IsSampleEditingPossible_None)

lemma Click_no_track:
  "mClickedTrack this = None \<Longrightarrow>
     Click art pProject evt this =
       (if IsAudioActive pProject then Inr ({Cancelled}, this, []) else Inl NullPointer)"
  by (simp add: Click_def Let_def IsSampleEditingPossible_None)

subsection \<open>Evaluation of the concrete collaborators\<close>

lemma ex_handle_facts:
  "mRect (ex_handle t) = ex_rect" "mClickedTrack (ex_handle t) = t"
  "\<not> mAltKey (ex_handle t)" "mLastDragPixel (ex_handle t) = 100"
  "mClickedStartPixel (ex_handle t) = 100" "mLastDragSampleValue (ex_handle t) = 0"
  "rect_width ex_rect = 1000" "rect_x ex_rect = 0"
  "viewInfo (ex_project b) = ex_view 100" "IsAudioActive (ex_project b) = b"
  "m_x (event (ex_mouse px py alt ctrl)) = px"
  "m_controlDown (event (ex_mouse px py alt ctrl)) = ctrl"
  by (simp_all add: ex_handle_def ex_rect_def ex_project_def ex_mouse_def)

lemma ex_times:
  "PositionToTime (ex_view z) 100 0 = 1" "PositionToTime (ex_view z) 120 0 = 6 / 5"
  "PositionToTime (ex_view z) 200 0 = 2" "TimeToPosition (ex_view z) (6 / 5) = 120"
  "TimeToPosition (ex_view z) 2 = 200"
  by (simp_all add: ex_view_def)

lemma ex_adjustTime:
  "adjustTime (Some ex_track) (PositionToTime (ex_view z) 100 0) = Inr 1"
  "adjustTime (Some ex_track) (PositionToTime (ex_view z) 120 0) = Inr (6 / 5)"
  "adjustTime (Some ex_track) (PositionToTime (ex_view z) 200 0) = Inr 2"
  by (simp_all add: adjustTime_def ex_view_def ex_track_def ex_clip_def)

lemma ex_SampleResolutionTest:
  "SampleResolutionTest (ex_view 100) (Some ex_track) 1 1000 = Inr True"
  "SampleResolutionTest (ex_view 100) (Some ex_track) (6 / 5) 1000 = Inr True"
  "SampleResolutionTest (ex_view 100) (Some ex_track) 2 1000 = Inr True"
  by (simp_all add: SampleResolutionTest_def ex_view_def ex_track_def ex_clip_def)

lemma ex_possible:
  "px = 100 \<or> px = 120 \<or> px = 200 \<Longrightarrow>
   IsSampleEditingPossible (event (ex_mouse px py alt ctrl)) ex_rect (ex_view 100)
     (Some ex_track) 1000 = Inr (True, [])"
  by (auto simp: IsSampleEditingPossible_def ex_mouse_def ex_rect_def ex_adjustTime
        ex_SampleResolutionTest)

lemma ex_level:
  "FindSampleEditingLevel ex_art
     \<lparr>mClickedTrack = Some ex_track, mRect = ex_rect, mClickedStartPixel = sp,
      mLastDragPixel = lp, mLastDragSampleValue = lv, mAltKey = ak\<rparr>
     (event (ex_mouse px 25 alt ctrl)) (ex_view 100) t0 = Inr (1 / 4)"
  "FindSampleEditingLevel ex_art
     \<lparr>mClickedTrack = Some ex_track, mRect = ex_rect, mClickedStartPixel = sp,
      mLastDragPixel = lp, mLastDragSampleValue = lv, mAltKey = ak\<rparr>
     (event (ex_mouse px 45 alt ctrl)) (ex_view 100) t0 = Inr (1 / 20)"
  by (simp_all add: FindSampleEditingLevel_def ex_track_def ex_art_def ex_mouse_def
        ex_view_def ex_rect_def Let_def)

lemma ex_Click:
  "Click ex_art (ex_project False) (ex_mouse 100 25 False False) (ex_handle (Some ex_track))
     = Inr ({RefreshCell},
            \<lparr>mClickedTrack = Some ex_track, mRect = ex_rect, mClickedStartPixel = 100,
             mLastDragPixel = 100, mLastDragSampleValue = 1 / 4, mAltKey = False\<rparr>,
            [SetFloatAtTime 1 (1 / 4)])"
proof -
  have p: "IsSampleEditingPossible (event (ex_mouse 100 25 False False))
             (rect (ex_mouse 100 25 False False)) (ex_view 100) (Some ex_track)
             (rect_width (rect (ex_mouse 100 25 False False))) = Inr (True, [])"
    using ex_possible [of 100 25 False False] by (simp add: ex_mouse_def ex_rect_def)
  have t: "PositionToTime (ex_view 100) 100 0 = 1" "TimeToPosition (ex_view 100) 1 = 100"
    by (simp_all add: ex_view_def)
  have m: "m_x (event (ex_mouse 100 25 False False)) = 100"
    "\<not> m_altDown (event (ex_mouse 100 25 False False))"
    "rect (ex_mouse 100 25 False False) = ex_rect" "rect_x ex_rect = 0"
    by (simp_all add: ex_mouse_def ex_rect_def)
  show ?thesis
    unfolding Click_def Let_def
    by (simp add: ex_project_def ex_handle_def p [unfolded m] m t ex_level)
qed

lemma ex_Drag_after_Click:
  "Drag ex_art (ex_project False) (ex_mouse 120 45 False False)
     \<lparr>mClickedTrack = Some ex_track, mRect = ex_rect, mClickedStartPixel = 100,
      mLastDragPixel = 100, mLastDragSampleValue = 1 / 4, mAltKey = False\<rparr>
   = Inr ({RefreshCell},
          \<lparr>mClickedTrack = Some ex_track, mRect = ex_rect, mClickedStartPixel = 100,
           mLastDragPixel = 120, mLastDragSampleValue = 1 / 20, mAltKey = False\<rparr>,
          [SetFloatsWithinTimeRange 1 (6 / 5) (interpolator 1 (6 / 5) (1 / 4) (1 / 20))])"
proof -
  let ?h = "\<lparr>mClickedTrack = Some ex_track, mRect = ex_rect, mClickedStartPixel = 100,
      mLastDragPixel = 100, mLastDragSampleValue = 1 / 4, mAltKey = False\<rparr>"
  have a: "\<not> IsAudioActive (ex_project False)" by (simp add: ex_handle_facts)
  have k: "\<not> mAltKey ?h" by simp
  have p: "IsSampleEditingPossible (event (ex_mouse 120 45 False False))
             (mRect ?h) (viewInfo (ex_project False)) (mClickedTrack ?h)
             (rect_width (mRect ?h)) = Inr (True, [])"
    using ex_possible [of 120 45 False False] by (simp add: ex_handle_facts)
  have l: "FindSampleEditingLevel ex_art ?h (event (ex_mouse 120 45 False False))
             (viewInfo (ex_project False))
             (PositionToTime (viewInfo (ex_project False)) (mLastDragPixel ?h) 0) = Inr (1 / 20)"
    unfolding ex_handle_facts by (rule ex_level)
  show ?thesis
    unfolding Drag_step_drawing [OF a k p l]
    by (simp add: ex_handle_facts ex_times)
qed

lemma ex_gesture:
  "deliverAll ex_art
     ((ex_project False, EvClick (ex_mouse 100 25 False False))
      # map (\<lambda>d. (fst d, EvDrag (snd d))) [(ex_project False, ex_mouse 120 45 False False)]
      @ [(ex_project False, EvRelease)])
     (ex_handle (Some ex_track))
   = Inr ([{RefreshCell}, {RefreshCell}, RefreshNone],
          \<lparr>mClickedTrack = None, mRect = ex_rect, mClickedStartPixel = 100,
           mLastDragPixel = 120, mLastDragSampleValue = 1 / 20, mAltKey = False\<rparr>,
          [SetFloatAtTime 1 (1 / 4),
           SetFloatsWithinTimeRange 1 (6 / 5) (interpolator 1 (6 / 5) (1 / 4) (1 / 20)),
           PushState ''Moved Samples'' ''Sample Edit'' CONSOLIDATE])"
  by (simp add: ex_Click ex_Drag_after_Click Release_def ex_handle_facts)

lemma ex_edge_possible:
  "IsSampleEditingPossible (event (ex_mouse 100 py alt ctrl)) ex_rect (ex_view 100)
     (Some ex_edge_track) 1000 = Inr (True, [])"
proof -
  have a: "adjustTime (Some ex_edge_track) (PositionToTime (ex_view 100) 100 0) = Inr 1"
    by (simp add: adjustTime_def ex_view_def ex_edge_track_def ex_track_def ex_clip_def)
  have g: "SampleResolutionTest (ex_view 100) (Some ex_edge_track) 1 1000 = Inr True"
    by (simp add: SampleResolutionTest_def ex_view_def ex_edge_track_def ex_track_def
          ex_clip_def)
  show ?thesis
    by (simp add: IsSampleEditingPossible_def ex_mouse_def ex_rect_def a g)
qed

lemma ex_edge_read:
  "GetFloatsCenteredAroundTime ex_edge_track 1 8
     = (replicate 13 (1 / 2) @ replicate 4 100, 0, 13)"
  by (simp add: ex_edge_track_def)

lemma ex_edge_Click:
  "Click ex_art (ex_project False) (ex_mouse 100 25 True False) (ex_handle (Some ex_edge_track))
     = Inr ({RefreshCell},
            \<lparr>mClickedTrack = Some ex_edge_track, mRect = ex_rect, mClickedStartPixel = 100,
             mLastDragPixel = 100, mLastDragSampleValue = 0, mAltKey = True\<rparr>,
            [SetFloatsCenteredAroundTime 1
               (smoothing (replicate 13 (1 / 2) @ replicate 4 100) (0, 13)) 5])"
proof -
  have p: "IsSampleEditingPossible (event (ex_mouse 100 25 True False))
             (rect (ex_mouse 100 25 True False)) (ex_view 100) (Some ex_edge_track)
             (rect_width (rect (ex_mouse 100 25 True False))) = Inr (True, [])"
    using ex_edge_possible [of 25 True False] by (simp add: ex_mouse_def ex_rect_def)
  have t: "PositionToTime (ex_view 100) 100 0 = 1" "TimeToPosition (ex_view 100) 1 = 100"
    by (simp_all add: ex_view_def)
  have m: "m_x (event (ex_mouse 100 25 True False)) = 100"
    "m_altDown (event (ex_mouse 100 25 True False))"
    "rect (ex_mouse 100 25 True False) = ex_rect" "rect_x ex_rect = 0"
    by (simp_all add: ex_mouse_def ex_rect_def)
  have k: "nat (SMOOTHING_KERNEL_RADIUS + SMOOTHING_BRUSH_RADIUS) = 8"
    "nat SMOOTHING_BRUSH_RADIUS = 5"
    by (simp_all add: SMOOTHING_KERNEL_RADIUS_def SMOOTHING_BRUSH_RADIUS_def)
  show ?thesis
    unfolding Click_def Let_def
    by (simp add: ex_project_def ex_handle_def p [unfolded m] m t ex_edge_read k)
qed

lemma ex_region_nth:
  "i < 13 \<Longrightarrow> (replicate 13 (1 / 2) @ replicate 4 (100::real)) ! i = 1 / 2"
  by (simp add: nth_append)

subsection \<open>Audio active\<close>

text \<open>
  Claim C1. While audio is active no handler writes a sample. \<open>Click\<close> is rejected: the
  result is \<open>Cancelled\<close>, the handle is unchanged and nothing is called. \<open>Release\<close>
  cancels: the track reference is cleared and the history is rolled back. \<open>Drag\<close>, once
  its resolution check has returned, cancels in the same way with the result
  \<open>RefreshCell | Cancelled\<close>; all it may do before the rollback is show the message of
  the resolution check. For every event, the effects contain no sample write.
\<close>

theorem audio_active_no_mutation:
  "IsAudioActive pProject \<Longrightarrow>
     Click art pProject evt this = Inr ({Cancelled}, this, [])
   \<and> Release pProject this = ({RefreshCell}, this\<lparr>mClickedTrack := None\<rparr>, [RollbackState])
   \<and> (IsSampleEditingPossible (event evt) (mRect this) (viewInfo pProject)
          (mClickedTrack this) (rect_width (mRect this)) = Inr (ok, msgs) \<longrightarrow>
        Drag art pProject evt this =
          Inr ({RefreshCell, Cancelled}, this\<lparr>mClickedTrack := None\<rparr>, msgs @ [RollbackState])
        \<and> filter is_write msgs = [])
   \<and> (Drag art pProject evt this = Inr (r, this1, fx) \<longrightarrow>
        r = {RefreshCell, Cancelled} \<and> this1 = this\<lparr>mClickedTrack := None\<rparr>
        \<and> RollbackState \<in> set fx \<and> filter is_write fx = [])
   \<and> filter is_write (effects_of (deliver art pProject e this)) = []"
proof -
  assume a: "IsAudioActive pProject"
  show ?thesis
  proof (intro conjI impI)
    show "Click art pProject evt this = Inr ({Cancelled}, this, [])"
      by (rule Click_unsafe [OF a])
    show "Release pProject this = ({RefreshCell}, this\<lparr>mClickedTrack := None\<rparr>, [RollbackState])"
      by (rule Release_unsafe [OF a])
    show "filter is_write (effects_of (deliver art pProject e this)) = []"
      by (rule deliver_unsafe_no_write [OF a])
  next
    assume p: "IsSampleEditingPossible (event evt) (mRect this) (viewInfo pProject)
          (mClickedTrack this) (rect_width (mRect this)) = Inr (ok, msgs)"
    show "Drag art pProject evt this =
          Inr ({RefreshCell, Cancelled}, this\<lparr>mClickedTrack := None\<rparr>, msgs @ [RollbackState])"
      using Drag_unsafe_Inr_given [OF a p] by simp
    show "filter is_write msgs = []"
      using Drag_unsafe_Inr_given [OF a p, of art] by simp
  next
    assume d: "Drag art pProject evt this = Inr (r, this1, fx)"
    show "r = {RefreshCell, Cancelled}" using Drag_unsafe_Inr [OF a d] by simp
    show "this1 = this\<lparr>mClickedTrack := None\<rparr>" using Drag_unsafe_Inr [OF a d] by simp
    show "RollbackState \<in> set fx" using Drag_unsafe_Inr [OF a d] by simp
    show "filter is_write fx = []" using Drag_unsafe_Inr [OF a d] by simp
  qed
qed

theorem audio_active_no_mutation_witness:
  "IsAudioActive (ex_project True)
   \<and> Click ex_art (ex_project True) (ex_mouse 120 30 False False) (ex_handle (Some ex_track))
       = Inr ({Cancelled}, ex_handle (Some ex_track), [])
   \<and> Drag ex_art (ex_project True) (ex_mouse 120 30 False False) (ex_handle (Some ex_track))
       = Inr ({RefreshCell, Cancelled}, ex_handle None, [RollbackState])
   \<and> Release (ex_project True) (ex_handle (Some ex_track))
       = ({RefreshCell}, ex_handle None, [RollbackState])"
proof -
  have a: "IsAudioActive (ex_project True)" by (simp add: ex_handle_facts)
  have p: "IsSampleEditingPossible (event (ex_mouse 120 30 False False))
             (mRect (ex_handle (Some ex_track))) (viewInfo (ex_project True))
             (mClickedTrack (ex_handle (Some ex_track)))
             (rect_width (mRect (ex_handle (Some ex_track)))) = Inr (True, [])"
    using ex_possible [of 120 30 False False] by (simp add: ex_handle_facts)
  have h: "(ex_handle (Some ex_track))\<lparr>mClickedTrack := None\<rparr> = ex_handle None"
    by (simp add: ex_handle_def)
  note t = audio_active_no_mutation [OF a, where art = ex_art
        and evt = "ex_mouse 120 30 False False" and this = "ex_handle (Some ex_track)"
        and ok = True and msgs = "[]" and r = "{RefreshCell, Cancelled}"
        and ?this1.0 = "ex_handle None" and fx = "[RollbackState]" and e = EvRelease]
  have c: "Click ex_art (ex_project True) (ex_mouse 120 30 False False)
       (ex_handle (Some ex_track)) = Inr ({Cancelled}, ex_handle (Some ex_track), [])"
    by (rule conjunct1 [OF t])
  have r: "Release (ex_project True) (ex_handle (Some ex_track))
       = ({RefreshCell}, ex_handle None, [RollbackState])"
    using conjunct1 [OF conjunct2 [OF t]] unfolding h .
  have d: "Drag ex_art (ex_project True) (ex_mouse 120 30 False False)
       (ex_handle (Some ex_track)) = Inr ({RefreshCell, Cancelled}, ex_handle None, [RollbackState])"
    using conjunct1 [OF mp [OF conjunct1 [OF conjunct2 [OF conjunct2 [OF t]]] p]]
    unfolding h append_Nil .
  show ?thesis using a c d r by (intro conjI)
qed

subsection \<open>Release\<close>

text \<open>
  Claim C2. \<open>Release\<close> with audio inactive clears the track reference, pushes one
  checkpoint with the flag \<open>CONSOLIDATE\<close> and returns \<open>RefreshNone\<close>. Hence a gesture
  \<open>Click\<close>, any number of \<open>Drag\<close>s, \<open>Release\<close> in which no handler answers
  \<open>Cancelled\<close> makes exactly one call to the history, that push, and no rollback.
\<close>

theorem Release_consolidated_checkpoint:
  "\<not> IsAudioActive pr \<Longrightarrow>
     Release pr this =
       (RefreshNone, this\<lparr>mClickedTrack := None\<rparr>,
        [PushState ''Moved Samples'' ''Sample Edit'' CONSOLIDATE])
   \<and> (deliverAll art
          ((p0, EvClick e0) # map (\<lambda>d. (fst d, EvDrag (snd d))) drags @ [(pr, EvRelease)])
          this = Inr (rs, this2, fx)
        \<and> (\<forall>r \<in> set rs. Cancelled \<notin> r) \<longrightarrow>
        filter is_history fx = [PushState ''Moved Samples'' ''Sample Edit'' CONSOLIDATE]
        \<and> mClickedTrack this2 = None
        \<and> last rs = RefreshNone)"
proof -
  assume a: "\<not> IsAudioActive pr"
  have rel: "Release pr h =
       (RefreshNone, h\<lparr>mClickedTrack := None\<rparr>,
        [PushState ''Moved Samples'' ''Sample Edit'' CONSOLIDATE])" for h
    using a by (simp add: Release_def)
  {
    assume g: "deliverAll art
          ((p0, EvClick e0) # map (\<lambda>d. (fst d, EvDrag (snd d))) drags @ [(pr, EvRelease)])
          this = Inr (rs, this2, fx)"
      and n: "\<forall>r \<in> set rs. Cancelled \<notin> r"
    from g obtain r this1 fx1 rs1 fx2 where
        s1: "Click art p0 e0 this = Inr (r, this1, fx1)"
      and s2: "deliverAll art (map (\<lambda>d. (fst d, EvDrag (snd d))) drags @ [(pr, EvRelease)]) this1
                 = Inr (rs1, this2, fx2)"
      and rs: "rs = r # rs1" and fx: "fx = fx1 @ fx2"
      using deliverAll_Cons_Inr
        [of art "(p0, EvClick e0)"
            "map (\<lambda>d. (fst d, EvDrag (snd d))) drags @ [(pr, EvRelease)]" this rs this2 fx]
      by auto
    have nr: "Cancelled \<notin> r" and nrs: "\<forall>r \<in> set rs1. Cancelled \<notin> r"
      using n rs by auto
    have h1: "filter is_history fx1 = []"
      using Click_no_history [OF s1 nr] .
    have d: "filter is_history fx2 = filter is_history (snd (snd (Release pr this1)))
       \<and> mClickedTrack this2 = None \<and> last rs1 = fst (Release pr this1)"
      using drags_no_history [OF s2 nrs] .
    have ne: "rs1 \<noteq> []"
      using deliverAll_length [OF s2] by auto
    have "filter is_history fx = [PushState ''Moved Samples'' ''Sample Edit'' CONSOLIDATE]
        \<and> mClickedTrack this2 = None \<and> last rs = RefreshNone"
      using d h1 rs fx ne rel [of this1] by simp
  }
  then show ?thesis using rel [of this] by blast
qed

theorem Release_consolidated_checkpoint_witness:
  "\<not> IsAudioActive (ex_project False)
   \<and> (\<exists>rs this2 fx.
        deliverAll ex_art
          ((ex_project False, EvClick (ex_mouse 100 25 False False))
           # map (\<lambda>d. (fst d, EvDrag (snd d))) [(ex_project False, ex_mouse 120 45 False False)]
           @ [(ex_project False, EvRelease)])
          (ex_handle (Some ex_track)) = Inr (rs, this2, fx)
        \<and> (\<forall>r \<in> set rs. Cancelled \<notin> r)
        \<and> filter is_history fx = [PushState ''Moved Samples'' ''Sample Edit'' CONSOLIDATE]
        \<and> mClickedTrack this2 = None
        \<and> last rs = RefreshNone)"
proof -
  have a: "\<not> IsAudioActive (ex_project False)" by (simp add: ex_handle_facts)
  have n: "\<forall>r \<in> set [{RefreshCell}, {RefreshCell}, RefreshNone]. Cancelled \<notin> r"
    by (simp add: RefreshNone_def)
  note t = Release_consolidated_checkpoint [OF a, where art = ex_art
      and ?p0.0 = "ex_project False" and ?e0.0 = "ex_mouse 100 25 False False"
      and drags = "[(ex_project False, ex_mouse 120 45 False False)]"
      and this = "ex_handle (Some ex_track)"
      and rs = "[{RefreshCell}, {RefreshCell}, RefreshNone]"
      and ?this2.0 = "\<lparr>mClickedTrack = None, mRect = ex_rect, mClickedStartPixel = 100,
           mLastDragPixel = 120, mLastDragSampleValue = 1 / 20, mAltKey = False\<rparr>"
      and fx = "[SetFloatAtTime 1 (1 / 4),
           SetFloatsWithinTimeRange 1 (6 / 5) (interpolator 1 (6 / 5) (1 / 4) (1 / 20)),
           PushState ''Moved Samples'' ''Sample Edit'' CONSOLIDATE]"]
  have c: "filter is_history [SetFloatAtTime 1 (1 / 4),
           SetFloatsWithinTimeRange 1 (6 / 5) (interpolator 1 (6 / 5) (1 / 4) (1 / 20)),
           PushState ''Moved Samples'' ''Sample Edit'' CONSOLIDATE]
           = [PushState ''Moved Samples'' ''Sample Edit'' CONSOLIDATE]
        \<and> mClickedTrack \<lparr>mClickedTrack = None, mRect = ex_rect, mClickedStartPixel = 100,
           mLastDragPixel = 120, mLastDragSampleValue = 1 / 20, mAltKey = False\<rparr> = None
        \<and> last [{RefreshCell}, {RefreshCell}, RefreshNone] = RefreshNone"
    using mp [OF conjunct2 [OF t] conjI [OF ex_gesture n]] .
  show ?thesis
    using a ex_gesture n c by blast
qed

subsection \<open>Events after the track reference is cleared\<close>




subsection \<open>The resolution gate\<close>

text \<open>
  Claim C4. \<open>SampleResolutionTest\<close> answers true when no clip lies at the candidate time.
  With a clip (of non-zero stretch ratio), and the runs of \<open>FindIntervals\<close> starting at
  pixel 0 in increasing order, the answer is true exactly when the average zoom of the
  run containing the candidate pixel \<open>max 0 (TimeToPosition time)\<close> is strictly greater
  than three times the clip's rate divided by its stretch ratio. In particular, at
  stretch ratio 1 and a positive rate, an average zoom of 2.9 times the rate is refused
  and one of 3.1 times the rate is accepted.
\<close>

theorem SampleResolutionTest_gate:
  "(GetClipAtTime w time = None \<longrightarrow> SampleResolutionTest vi (Some w) time width = Inr True)
   \<and> (GetClipAtTime w time = Some clip \<and> GetStretchRatio clip \<noteq> 0
        \<and> FindIntervals vi width = it # rest \<and> position it = 0
        \<and> sorted (map position (it # rest)) \<longrightarrow>
      SampleResolutionTest vi (Some w) time width =
        Inr (averageZoom (run_containing (it # rest) (max 0 (TimeToPosition vi time)))
               > 3 * (GetRate clip / GetStretchRatio clip))
      \<and> (GetStretchRatio clip = 1 \<and> 0 < GetRate clip
            \<and> averageZoom (run_containing (it # rest) (max 0 (TimeToPosition vi time)))
                = 29 / 10 * GetRate clip \<longrightarrow>
          SampleResolutionTest vi (Some w) time width = Inr False)
      \<and> (GetStretchRatio clip = 1 \<and> 0 < GetRate clip
            \<and> averageZoom (run_containing (it # rest) (max 0 (TimeToPosition vi time)))
                = 31 / 10 * GetRate clip \<longrightarrow>
          SampleResolutionTest vi (Some w) time width = Inr True))"
proof -
  have none: "GetClipAtTime w time = None \<Longrightarrow> SampleResolutionTest vi (Some w) time width = Inr True"
    by (simp add: SampleResolutionTest_def)
  {
    assume c: "GetClipAtTime w time = Some clip" and s: "GetStretchRatio clip \<noteq> 0"
      and f: "FindIntervals vi width = it # rest" and p: "position it = 0"
      and so: "sorted (map position (it # rest))"
    have "findRun it rest (max 0 (TimeToPosition vi time))
            = run_containing (it # rest) (max 0 (TimeToPosition vi time))"
      using findRun_run_containing [of it "max 0 (TimeToPosition vi time)" rest] p so by simp
    then have "SampleResolutionTest vi (Some w) time width =
        Inr (averageZoom (run_containing (it # rest) (max 0 (TimeToPosition vi time)))
               > 3 * (GetRate clip / GetStretchRatio clip))"
      using c s f p by (simp add: SampleResolutionTest_def)
  }
  note some = this
  show ?thesis using none some by auto
qed

theorem SampleResolutionTest_gate_witness:
  "SampleResolutionTest (ex_view 29) (Some ex_bare_track) 1 1000 = Inr True
   \<and> SampleResolutionTest (ex_view 29) (Some ex_track) 1 1000 = Inr False
   \<and> SampleResolutionTest (ex_view 31) (Some ex_track) 1 1000 = Inr True"
  using SampleResolutionTest_gate [where w = ex_bare_track and time = 1 and vi = "ex_view 29"
          and width = 1000 and clip = ex_clip
          and it = "\<lparr>position = 0, averageZoom = 29, inFisheye = False\<rparr>"
          and rest = "[\<lparr>position = 1000, averageZoom = 0, inFisheye = False\<rparr>]"]
        SampleResolutionTest_gate [where w = ex_track and time = 1 and vi = "ex_view 29"
          and width = 1000 and clip = ex_clip
          and it = "\<lparr>position = 0, averageZoom = 29, inFisheye = False\<rparr>"
          and rest = "[\<lparr>position = 1000, averageZoom = 0, inFisheye = False\<rparr>]"]
        SampleResolutionTest_gate [where w = ex_track and time = 1 and vi = "ex_view 31"
          and width = 1000 and clip = ex_clip
          and it = "\<lparr>position = 0, averageZoom = 31, inFisheye = False\<rparr>"
          and rest = "[\<lparr>position = 1000, averageZoom = 0, inFisheye = False\<rparr>]"]
  by (simp add: ex_view_def ex_track_def ex_bare_track_def ex_clip_def run_containing_def)

subsection \<open>The envelope correction\<close>




subsection \<open>The interpolator\<close>

text \<open>
  Claim C6. For anchors \<open>(t0, v0)\<close> and \<open>(t1, v1)\<close>: if \<open>t0 = t1\<close> the interpolated value
  is \<open>v1\<close> at every query time; otherwise it is the value of the line through the anchors
  at the query time, clamped to \<open>[min v0 v1, max v0 v1]\<close>. At every query time the
  result lies between the two endpoint values.
\<close>

theorem interpolator_within_endpoints:
  "(t0 = t1 \<longrightarrow> interpolator t0 t1 v0 v1 t = v1)
   \<and> (t0 \<noteq> t1 \<longrightarrow>
        interpolator t0 t1 v0 v1 t =
          max (min v0 v1) (min (max v0 v1) (v0 + ((v1 - v0) / (t1 - t0)) * (t - t0))))
   \<and> min v0 v1 \<le> interpolator t0 t1 v0 v1 t
   \<and> interpolator t0 t1 v0 v1 t \<le> max v0 v1"
proof -
  have le: "min v0 v1 \<le> max v0 v1" by simp
  have eq: "t0 = t1 \<Longrightarrow> interpolator t0 t1 v0 v1 t = v1"
    by (simp add: interpolator_def)
  have ne: "t0 \<noteq> t1 \<Longrightarrow> interpolator t0 t1 v0 v1 t =
      std_clamp (v0 + ((v1 - v0) / (t1 - t0)) * (t - t0)) (min v0 v1) (max v0 v1)"
    by (simp add: interpolator_def Let_def add.commute)
  have bounds: "min v0 v1 \<le> interpolator t0 t1 v0 v1 t \<and> interpolator t0 t1 v0 v1 t \<le> max v0 v1"
  proof (cases "t0 = t1")
    case True
    then show ?thesis using eq by simp
  next
    case False
    then show ?thesis using ne std_clamp_bounds [OF le] by simp
  qed
  show ?thesis using eq ne bounds std_clamp_max_min [OF le] by simp
qed

theorem interpolator_within_endpoints_witness:
  "interpolator 0 1 (2 / 10) (- 3 / 10) (3 / 2) = - 3 / 10
   \<and> interpolator 0 1 (2 / 10) (- 3 / 10) (- 1 / 2) = 2 / 10
   \<and> interpolator 0 1 (2 / 10) (- 3 / 10) (1 / 2) = - 1 / 20
   \<and> interpolator 1 1 (2 / 10) (- 3 / 10) 7 = - 3 / 10"
  using interpolator_within_endpoints [of 0 1 "2 / 10" "- 3 / 10" "3 / 2"]
        interpolator_within_endpoints [of 0 1 "2 / 10" "- 3 / 10" "- 1 / 2"]
        interpolator_within_endpoints [of 0 1 "2 / 10" "- 3 / 10" "1 / 2"]
        interpolator_within_endpoints [of 1 1 "2 / 10" "- 3 / 10" 7]
  by simp

subsection \<open>Drag in drawing mode\<close>

text \<open>
  Claim C7, as the code has it. On a \<open>Drag\<close> with audio inactive, the resolution check
  passing and the handle in drawing mode: \<open>t0\<close> is the time of \<open>mLastDragPixel\<close>, \<open>t1\<close>
  the time of the pointer; the new level is the result of \<open>FindSampleEditingLevel\<close>
  for the event; the interpolator from \<open>(t0, mLastDragSampleValue)\<close> to
  \<open>(t1, newLevel)\<close> is written over \<open>[min t0 t1, max t0 t1]\<close>, with \<open>t1\<close> the pointer's
  time whether or not the control key is held; then \<open>mLastDragSampleValue\<close> becomes the
  new level and \<open>mLastDragPixel\<close> becomes \<open>mClickedStartPixel\<close> if the control key is
  held and the pointer's pixel otherwise.
\<close>

theorem Drag_drawing:
  "\<not> IsAudioActive pProject \<Longrightarrow> \<not> mAltKey this \<Longrightarrow>
   IsSampleEditingPossible (event evt) (mRect this) (viewInfo pProject)
     (mClickedTrack this) (rect_width (mRect this)) = Inr (True, msgs) \<Longrightarrow>
   (let vi = viewInfo pProject;
        t0 = PositionToTime vi (mLastDragPixel this) 0;
        t1 = PositionToTime vi (m_x (event evt)) (rect_x (mRect this));
        x1 = (if m_controlDown (event evt) then mClickedStartPixel this
              else TimeToPosition vi t1)
    in \<exists>newLevel.
         FindSampleEditingLevel art this (event evt) vi t0 = Inr newLevel
         \<and> Drag art pProject evt this =
             Inr ({RefreshCell},
                  this\<lparr>mLastDragPixel := x1, mLastDragSampleValue := newLevel\<rparr>,
                  [SetFloatsWithinTimeRange (min t0 t1) (max t0 t1)
                     (interpolator t0 t1 (mLastDragSampleValue this) newLevel)]))"
proof -
  assume a: "\<not> IsAudioActive pProject" and k: "\<not> mAltKey this"
    and p: "IsSampleEditingPossible (event evt) (mRect this) (viewInfo pProject)
              (mClickedTrack this) (rect_width (mRect this)) = Inr (True, msgs)"
  obtain w where w: "mClickedTrack this = Some w"
    using IsSampleEditingPossible_Inr_track [OF p] by blast
  obtain newLevel where
    l: "FindSampleEditingLevel art this (event evt) (viewInfo pProject)
              (PositionToTime (viewInfo pProject) (mLastDragPixel this) 0) = Inr newLevel"
    using FindSampleEditingLevel_Some [OF w] by blast
  show ?thesis
    unfolding Let_def using l Drag_step_drawing [OF a k p l] by blast
qed

theorem Drag_drawing_witness:
  "\<not> IsAudioActive (ex_project False) \<and> \<not> mAltKey (ex_handle (Some ex_track))
   \<and> Drag ex_art (ex_project False) (ex_mouse 120 45 False False) (ex_handle (Some ex_track))
       = Inr ({RefreshCell},
              (ex_handle (Some ex_track))\<lparr>mLastDragPixel := 120, mLastDragSampleValue := 1 / 20\<rparr>,
              [SetFloatsWithinTimeRange 1 (6 / 5) (interpolator 1 (6 / 5) 0 (1 / 20))])"
proof -
  have a: "\<not> IsAudioActive (ex_project False)" by (simp add: ex_handle_facts)
  have k: "\<not> mAltKey (ex_handle (Some ex_track))" by (simp add: ex_handle_facts)
  have p: "IsSampleEditingPossible (event (ex_mouse 120 45 False False))
             (mRect (ex_handle (Some ex_track))) (viewInfo (ex_project False))
             (mClickedTrack (ex_handle (Some ex_track)))
             (rect_width (mRect (ex_handle (Some ex_track)))) = Inr (True, [])"
    using ex_possible [of 120 45 False False] by (simp add: ex_handle_facts)
  have l: "FindSampleEditingLevel ex_art (ex_handle (Some ex_track))
             (event (ex_mouse 120 45 False False)) (ex_view 100) 1 = Inr (1 / 20)"
    unfolding ex_handle_def by (rule ex_level)
  have "\<exists>newLevel.
         FindSampleEditingLevel ex_art (ex_handle (Some ex_track))
            (event (ex_mouse 120 45 False False)) (ex_view 100) 1 = Inr newLevel
         \<and> Drag ex_art (ex_project False) (ex_mouse 120 45 False False)
              (ex_handle (Some ex_track)) =
             Inr ({RefreshCell},
                  (ex_handle (Some ex_track))
                    \<lparr>mLastDragPixel := 120, mLastDragSampleValue := newLevel\<rparr>,
                  [SetFloatsWithinTimeRange 1 (6 / 5) (interpolator 1 (6 / 5) 0 newLevel)])"
    using Drag_drawing [OF a k p, where art = ex_art]
    unfolding Let_def ex_handle_facts ex_times by simp
  then obtain nl where
      n1: "FindSampleEditingLevel ex_art (ex_handle (Some ex_track))
            (event (ex_mouse 120 45 False False)) (ex_view 100) 1 = Inr nl"
    and n2: "Drag ex_art (ex_project False) (ex_mouse 120 45 False False)
              (ex_handle (Some ex_track)) =
             Inr ({RefreshCell},
                  (ex_handle (Some ex_track))
                    \<lparr>mLastDragPixel := 120, mLastDragSampleValue := nl\<rparr>,
                  [SetFloatsWithinTimeRange 1 (6 / 5) (interpolator 1 (6 / 5) 0 nl)])"
    by blast
  have nl: "nl = 1 / 20" using n1 l by simp
  show ?thesis using a k n2 unfolding nl by (intro conjI)
qed

text \<open>
  Claim C7 as stated fails with the control key held: with the last drag pixel and the
  start pixel both at time 1 and the pointer at time 2, the range written is \<open>[1, 2]\<close>,
  so the edited range is extended to the pointer.
\<close>

theorem Drag_locked_range_counterexample:
  "write_ranges (effects_of
      (Drag ex_art (ex_project False) (ex_mouse 200 25 False True) (ex_handle (Some ex_track))))
     = [(1, 2)]
   \<and> m_controlDown (event (ex_mouse 200 25 False True))
   \<and> PositionToTime (ex_view 100) (mClickedStartPixel (ex_handle (Some ex_track))) 0 = 1
   \<and> PositionToTime (ex_view 100) (mLastDragPixel (ex_handle (Some ex_track))) 0 = 1"
proof -
  have a: "\<not> IsAudioActive (ex_project False)" by (simp add: ex_handle_facts)
  have k: "\<not> mAltKey (ex_handle (Some ex_track))" by (simp add: ex_handle_facts)
  have p: "IsSampleEditingPossible (event (ex_mouse 200 25 False True))
             (mRect (ex_handle (Some ex_track))) (viewInfo (ex_project False))
             (mClickedTrack (ex_handle (Some ex_track)))
             (rect_width (mRect (ex_handle (Some ex_track)))) = Inr (True, [])"
    using ex_possible [of 200 25 False True] by (simp add: ex_handle_facts)
  have l: "FindSampleEditingLevel ex_art (ex_handle (Some ex_track))
             (event (ex_mouse 200 25 False True)) (viewInfo (ex_project False))
             (PositionToTime (viewInfo (ex_project False))
                (mLastDragPixel (ex_handle (Some ex_track))) 0) = Inr (1 / 4)"
    unfolding ex_handle_facts unfolding ex_handle_def by (rule ex_level)
  show ?thesis
    unfolding Drag_step_drawing [OF a k p l] effects_of_def
    by (simp add: ex_handle_facts ex_times)
qed

subsection \<open>The smoothing blend\<close>



subsection \<open>The smoothing bound\<close>

text \<open>
  If every sample of the region inside the range the read returned lies in \<open>[-1, 1]\<close>,
  then the value computed for slot \<open>j\<close> lies in \<open>[-1, 1]\<close> whenever the original sample
  of that slot (slot \<open>j + 3\<close> of the region) is inside the range: the kernel loop skips
  the indices outside the range and still divides by 16.
\<close>

lemma smoothing_bounded_in_range:
  "(\<forall>i. fst sampleRegionRange \<le> i \<and> i < snd sampleRegionRange \<longrightarrow> \<bar>sampleRegion ! i\<bar> \<le> 1)
   \<Longrightarrow> j < 11 \<Longrightarrow> fst sampleRegionRange \<le> j + 3 \<Longrightarrow> j + 3 < snd sampleRegionRange
   \<Longrightarrow> length (smoothing sampleRegion sampleRegionRange) = 11
       \<and> - 1 \<le> smoothing sampleRegion sampleRegionRange ! j
       \<and> smoothing sampleRegion sampleRegionRange ! j \<le> 1"
proof -
  assume v: "\<forall>i. fst sampleRegionRange \<le> i \<and> i < snd sampleRegionRange
               \<longrightarrow> \<bar>sampleRegion ! i\<bar> \<le> 1"
    and j: "j < 11" and lo: "fst sampleRegionRange \<le> j + 3"
    and hi: "j + 3 < snd sampleRegionRange"
  have s: "\<bar>sumOfSamples sampleRegion sampleRegionRange (int j - 5)\<bar> \<le> 16"
    using sumOfSamples_bound [of sampleRegionRange sampleRegion "int j - 5"] v by blast
  then have c: "\<bar>sumOfSamples sampleRegion sampleRegionRange (int j - 5) / 16\<bar> \<le> 1"
    by simp
  have o1: "\<bar>sampleRegion ! (j + 3)\<bar> \<le> 1" using v lo hi by blast
  have p: "0 \<le> prob (int j - 5) \<and> prob (int j - 5) \<le> 1"
    using j prob_bounds [of "int j - 5"] by simp
  have "\<bar>smoothing sampleRegion sampleRegionRange ! j\<bar> \<le> 1"
    unfolding smoothing_nth [OF j] using blend_bound [OF c o1] p by blast
  then show ?thesis using length_smoothing by (simp add: abs_le_iff)
qed

lemma smoothing_bounded_in_range_example:
  "- 1 \<le> smoothing (replicate 13 (1 / 2) @ replicate 4 100) (0, 13) ! 9
   \<and> smoothing (replicate 13 (1 / 2) @ replicate 4 100) (0, 13) ! 9 \<le> 1"
proof -
  have v: "\<forall>i. fst (0::nat, 13::nat) \<le> i \<and> i < snd (0::nat, 13::nat)
             \<longrightarrow> \<bar>(replicate 13 (1 / 2) @ replicate 4 (100::real)) ! i\<bar> \<le> 1"
    by (simp add: ex_region_nth)
  show ?thesis
    using smoothing_bounded_in_range [OF v, of 9] by simp
qed

text \<open>
  Claim C9 does not hold of the code on a truncated neighbourhood. The kernel loop tests
  every index against the range the read returned, but the mixing loop reads the
  original sample \<^verbatim>\<open>sampleRegion[B + K + jj]\<close> of every brush offset without that test.
  An alt-click at the end of a clip, where the read returns the range \<open>[0, 13)\<close> with
  samples 0.5 and slot 13 of the buffer still holds 100, hands
  \<open>SetFloatsCenteredAroundTime\<close> eleven values of which the last is 100.
\<close>

theorem smoothing_unread_slot:
  "effects_of (Click ex_art (ex_project False) (ex_mouse 100 25 True False)
                 (ex_handle (Some ex_edge_track)))
     = [SetFloatsCenteredAroundTime 1
          (smoothing (replicate 13 (1 / 2) @ replicate 4 100) (0, 13)) 5]
   \<and> GetFloatsCenteredAroundTime ex_edge_track 1 8
       = (replicate 13 (1 / 2) @ replicate 4 100, 0, 13)
   \<and> smoothing (replicate 13 (1 / 2) @ replicate 4 100) (0, 13) ! 10 = 100
   \<and> (replicate 13 (1 / 2) @ replicate 4 (100::real)) ! 12 = 1 / 2"
  using smoothing_edges [of "replicate 13 (1 / 2) @ replicate 4 100" "(0, 13)"]
  by (simp add: ex_edge_Click effects_of_def nth_append ex_edge_read)

subsection \<open>Hit testing\<close>

text \<open>
  Claim C10. \<open>HitTest\<close> shows no message. It gives no handle when the resolution test
  fails or the sample cannot be read; otherwise it gives a handle exactly when the
  distance between the pointer's row and the row of the sample, scaled by the envelope
  value at the snapped time (1 without envelope), is strictly less than 10 pixels.
\<close>

theorem HitTest_tolerance:
  "adjustTime (Some wt) (PositionToTime (viewInfo pProject) (m_x state) (rect_x rc)) = Inr tt \<Longrightarrow>
   (let time = PositionToTime (viewInfo pProject) (m_x state) (rect_x rc);
        gate = SampleResolutionTest (viewInfo pProject) (Some wt) tt (rect_width rc);
        envValue = (case GetEnvelopeAtTime wt time of None \<Rightarrow> 1 | Some env \<Rightarrow> GetValue env tt);
        yValue = (\<lambda>oneSample.
                    GetWaveYPos art (oneSample * envValue)
                      (fst (GetDisplayBounds wt)) (snd (GetDisplayBounds wt)) (rect_height rc)
                      (\<not> isLinear wt) True (dBRange wt) False
                    + rect_y rc)
    in (gate = Inr False \<longrightarrow> HitTest art state rc pProject (Some wt) = Inr (NullHandle, []))
     \<and> (gate = Inr True \<and> GetFloatAtTime wt tt = None \<longrightarrow>
          HitTest art state rc pProject (Some wt) = Inr (NullHandle, []))
     \<and> (gate = Inr True \<and> GetFloatAtTime wt tt = Some oneSample \<longrightarrow>
          HitTest art state rc pProject (Some wt) =
            Inr (if \<bar>yValue oneSample - m_y state\<bar> < 10 then NewSampleHandle (Some wt)
                 else NullHandle, []))
     \<and> (HitTest art state rc pProject (Some wt) = Inr (h, fx) \<longrightarrow>
          fx = []
          \<and> (h \<noteq> NullHandle \<longrightarrow>
               gate = Inr True
               \<and> (\<exists>s. GetFloatAtTime wt tt = Some s \<and> \<bar>yValue s - m_y state\<bar> < 10))))"
  by (auto simp: HitTest_def HitAnywhere_def Let_def split: sum.splits option.splits if_splits)

theorem HitTest_tolerance_witness:
  "adjustTime (Some ex_track) (PositionToTime (viewInfo (ex_project False)) 100 (rect_x ex_rect))
     = Inr 1
   \<and> HitTest ex_art (event (ex_mouse 100 30 False False)) ex_rect (ex_project False)
        (Some ex_track) = Inr (NewSampleHandle (Some ex_track), [])
   \<and> HitTest ex_art (event (ex_mouse 100 35 False False)) ex_rect (ex_project False)
        (Some ex_track) = Inr (NullHandle, [])"
proof -
  have a: "adjustTime (Some ex_track)
             (PositionToTime (viewInfo (ex_project False)) 100 (rect_x ex_rect)) = Inr 1"
    by (simp add: adjustTime_def ex_track_def ex_clip_def ex_project_def ex_view_def ex_rect_def)
  have g: "SampleResolutionTest (viewInfo (ex_project False)) (Some ex_track) 1
             (rect_width ex_rect) = Inr True"
    by (simp add: SampleResolutionTest_def ex_track_def ex_clip_def ex_project_def ex_view_def
          ex_rect_def)
  have a1: "adjustTime (Some ex_track)
      (PositionToTime (viewInfo (ex_project False)) (m_x (event (ex_mouse 100 30 False False)))
         (rect_x ex_rect)) = Inr 1"
    using a by (simp add: ex_mouse_def)
  have a2: "adjustTime (Some ex_track)
      (PositionToTime (viewInfo (ex_project False)) (m_x (event (ex_mouse 100 35 False False)))
         (rect_x ex_rect)) = Inr 1"
    using a by (simp add: ex_mouse_def)
  show ?thesis
    using a g HitTest_tolerance [OF a1, where art = ex_art and oneSample = "1 / 4"]
      HitTest_tolerance [OF a2, where art = ex_art and oneSample = "1 / 4"]
    by (simp add: Let_def ex_track_def ex_art_def ex_mouse_def ex_rect_def)
qed

end
